theory Spec2Isabelle
  imports Complex_Main
begin

section \<open>Data model\<close>

text \<open>
  The program is a single React component, \<^verbatim>\<open>App\<close> in \<^verbatim>\<open>src/pages/index.tsx\<close>.
  A chat message is the \<^verbatim>\<open>ChatMessage\<close> of the \<^verbatim>\<open>window.ai\<close> package: a role and a
  content string. Strings are byte lists (UTF-8); the operations the component applies to
  them are the emptiness test and concatenation.
\<close>

datatype Role = System | User | Assistant

record ChatMessage =
  role :: Role
  content :: string

text \<open>What the streaming callback receives as its \<^verbatim>\<open>result\<close>: an object with a message.\<close>

record MessageOutput =
  message :: ChatMessage

text \<open>The handle of the extension that \<^verbatim>\<open>getWindowAI\<close> returns; \<open>None\<close> stands for null.\<close>

datatype WindowAI = WindowAI

text \<open>
  Calls of \<^verbatim>\<open>react-hot-toast\<close>: \<^verbatim>\<open>toast.success(text, {id})\<close>,
  \<^verbatim>\<open>toast.custom(<InstallationToast />, {id})\<close> and \<^verbatim>\<open>toast.error(text)\<close>.
\<close>

datatype toast_component = InstallationToast

datatype toast_call =
    Toast_success string string
  | Toast_custom toast_component string
  | Toast_error string

text \<open>
  The second argument of \<^verbatim>\<open>generateText\<close>. The callback is a closure over the local
  variable \<^verbatim>\<open>updatedMessages\<close> of one invocation of \<^verbatim>\<open>handleNewMessage\<close>; the field holds
  the number of that invocation, which selects the closure's variable in the state below.
  The temperature is the decimal literal of the source.
\<close>

record StreamingOptions =
  temperature :: rat
  maxTokens :: int
  onStreamResult :: nat

text \<open>One call of \<^verbatim>\<open>aiRef.current.generateText({messages: ...}, streamingOptions)\<close>.\<close>

record generateText_call =
  input_messages :: "ChatMessage list"
  options :: StreamingOptions

text \<open>
  The state of the component: the four \<^verbatim>\<open>useState\<close> cells, the \<^verbatim>\<open>aiRef\<close> reference,
  the effects on the outside recorded as logs (calls of \<^verbatim>\<open>getWindowAI\<close>, of \<^verbatim>\<open>toast\<close>
  and of \<^verbatim>\<open>generateText\<close>), and the local variable \<^verbatim>\<open>updatedMessages\<close> of every
  invocation of \<^verbatim>\<open>handleNewMessage\<close> whose callback was handed to the extension.
  \<open>messages_closure\<close> is the constant \<^verbatim>\<open>messages\<close> of the latest render, the value that the
  handlers of that render read on line 55; it lags behind the \<^verbatim>\<open>messages\<close> state while a
  render is pending. Scrolling and console output are left out.
\<close>

record App =
  messages :: "ChatMessage list"
  messages_closure :: "ChatMessage list"
  inputValue :: string
  loading :: bool
  isGameStarted :: bool
  aiRef :: "WindowAI option"
  getWindowAI_calls :: nat
  toasts :: "toast_call list"
  generateText_calls :: "generateText_call list"
  updatedMessages :: "ChatMessage list list"

definition App_initial :: App where
  "App_initial =
     \<lparr>messages = [], messages_closure = [], inputValue = [], loading = False,
      isGameStarted = False, aiRef = None, getWindowAI_calls = 0, toasts = [],
      generateText_calls = [], updatedMessages = []\<rparr>"

section \<open>The handlers\<close>

text \<open>
  How the promise of \<^verbatim>\<open>getWindowAI()\<close> settles: it resolves to the handle or to null, or
  it is rejected.
\<close>

datatype probe_outcome = Resolved "WindowAI option" | Rejected

text \<open>
  \<^verbatim>\<open>init\<close> (lines 16-27). The \<^verbatim>\<open>await\<close> of line 17 stands in no \<^verbatim>\<open>try\<close>: when the promise
  is rejected, \<^verbatim>\<open>init\<close> ends there, with \<^verbatim>\<open>aiRef.current\<close> as it was and no toast.
\<close>

definition init :: "probe_outcome \<Rightarrow> App \<Rightarrow> App" where
  "init probe s =
     (let s0 = s\<lparr>getWindowAI_calls := getWindowAI_calls s + 1\<rparr>
      in case probe of
           Rejected \<Rightarrow> s0
         | Resolved ai \<Rightarrow>
             (let s1 = s0\<lparr>aiRef := ai\<rparr>
              in if aiRef s1 \<noteq> None
                 then s1\<lparr>toasts := toasts s1 @
                         [Toast_success ''window.ai detected!'' ''window-ai-detected'']\<rparr>
                 else s1\<lparr>toasts := toasts s1 @
                         [Toast_custom InstallationToast ''window-ai-not-detected'']\<rparr>))"

text \<open>The template literal of lines 98-100, with its line breaks and its typographic quotes.\<close>

definition systemPrompt :: string where
  "systemPrompt =
   [CHR 0x0A] @
   ''      Start a text adventure game called '' @
   [CHR 0x22] @
   ''Fantasy Quest'' @
   [CHR 0x22] @
   '' in a fantasy world the player fights monsters, collects loot, '' @
   ''levels up, with the ultimate goal of defeating the dragon king. '' @
   ''The player starts in the village of Greenhaven. Allow the user '' @
   ''to choose party members as well. Fill in the details. Please '' @
   ''let the player know about the goal of defeating the dragon king '' @
   ''at the beginning of the game. I want to play this as a text '' @
   ''adventure. Show stats such as Health, Experience, Level, Gold, '' @
   ''Weapons, Armor, Ring when appropiate, with the title '' @
   [CHR 0xE2, CHR 0x80, CHR 0x9C] @
   ''Current Stats:'' @
   [CHR 0xE2, CHR 0x80, CHR 0x9D] @
   ''. The numerical stats like Health, Experience, Level, Gold should '' @
   ''actually be computed correctly. When the player levels up, you '' @
   ''say a sentence saying that the player leveled up and to what '' @
   ''level they leveled up to. Give choices using a numbered list. '' @
   ''Only provide one list of choices at a time. Don'' @
   [CHR 0xE2, CHR 0x80, CHR 0x99] @
   ''t say anything after the numbered list of choices since it should '' @
   ''be obvious to the player that they can choose a number. Don'' @
   [CHR 0xE2, CHR 0x80, CHR 0x99] @
   ''t use rolling of dice in the game. The dragon king should be '' @
   ''difficult to defeat. If the player dies, the player respawns '' @
   ''at the village of Greenhaven but with half their gold gone. '' @
   ''During the journey, the player can encounter monsters, and collect '' @
   ''loot (e.g. better weapons, armor, and rings). Again, you are '' @
   ''the game master, so you provide one list of choices and the '' @
   ''player has to reply with their choice. Please wait for the player '' @
   ''to select a choice before providing more lists of choices. Again, '' @
   ''don'' @
   [CHR 0xE2, CHR 0x80, CHR 0x99] @
   ''t choose the choice for the player; wait for the player to choose '' @
   ''the choice. The player is me. The game only ends after the player '' @
   ''defeats the dragon king. Allow the player to view their inventory. '' @
   ''Don'' @
   [CHR 0xE2, CHR 0x80, CHR 0x99] @
   ''t let the player teleport to other locations (e.g. teleport '' @
   ''directly to the battle with the dragon king). The amount of '' @
   ''Gold the player has cannot be negative; if the player does not '' @
   ''have enough gold to buy and item, don'' @
   [CHR 0xE2, CHR 0x80, CHR 0x99] @
   ''t allow the player to buy it. Please do not respond for the '' @
   ''player; you are the game master only.'' @
   [CHR 0x0A] @
   ''    ''"

text \<open>\<^verbatim>\<open>Array.prototype.map\<close> with a callback of the element and its index.\<close>

definition map_index :: "('a \<Rightarrow> nat \<Rightarrow> 'b) \<Rightarrow> 'a list \<Rightarrow> 'b list" where
  "map_index f xs = map (\<lambda>(index, x). f x index) (zip [0..<length xs] xs)"

text \<open>JavaScript truthiness of \<^verbatim>\<open>error: string | null\<close>: null and the empty string are falsy.\<close>

definition truthy :: "string option \<Rightarrow> bool" where
  "truthy error = (case error of None \<Rightarrow> False | Some t \<Rightarrow> t \<noteq> [])"

text \<open>
  Lines 71-92: the new value of \<^verbatim>\<open>updatedMessages\<close> for a result. On an empty list
  \<^verbatim>\<open>lastMessage\<close> is undefined and reading its role throws: \<open>None\<close>.
\<close>

definition stream_update :: "ChatMessage list \<Rightarrow> MessageOutput \<Rightarrow> ChatMessage list option" where
  "stream_update ums result =
     (if ums = [] then None
      else let lastMessage = ums ! (length ums - 1)
           in if role lastMessage = User
              then Some (ums @ [\<lparr>role = Assistant, content = content (message result)\<rparr>])
              else Some (map_index (\<lambda>msg index.
                           if index = length ums - 1
                           then msg\<lparr>content := content msg @ content (message result)\<rparr>
                           else msg) ums))"

text \<open>
  The callback \<^verbatim>\<open>onStreamResult\<close> (lines 64-95) of invocation \<open>k\<close>: it reads and writes
  that invocation's \<^verbatim>\<open>updatedMessages\<close> and overwrites the \<^verbatim>\<open>messages\<close> state with it.
  An invocation that never took place has no callback to run.
\<close>

definition run_onStreamResult :: "nat \<Rightarrow> MessageOutput option \<Rightarrow> string option \<Rightarrow> App \<Rightarrow> App" where
  "run_onStreamResult k result error s =
     (if length (updatedMessages s) \<le> k then s
      else let s1 = s\<lparr>loading := False\<rparr>
      in if truthy error
         then s1\<lparr>toasts := toasts s1 @ [Toast_error ''window.ai streaming completion failed.'']\<rparr>
         else (case result of
                 None \<Rightarrow> s1
               | Some r \<Rightarrow>
                   (case stream_update (updatedMessages s1 ! k) r of
                      None \<Rightarrow> s1
                    | Some ums \<Rightarrow>
                        s1\<lparr>updatedMessages := (updatedMessages s1)[k := ums], messages := ums\<rparr>)))"

text \<open>The \<^verbatim>\<open>catch\<close> block of lines 112-115.\<close>

definition generateText_catch :: "App \<Rightarrow> App" where
  "generateText_catch s =
     s\<lparr>toasts := toasts s @ [Toast_error ''window.ai generation completion failed.'']\<rparr>"

text \<open>
  \<^verbatim>\<open>handleNewMessage\<close> (lines 52-116) up to its \<^verbatim>\<open>await\<close>. Line 55 builds the working
  transcript from the \<^verbatim>\<open>messages\<close> constant of the render the handler belongs to; line 56
  updates the state from its current value \<^verbatim>\<open>prevMessages\<close>. With a null
  \<^verbatim>\<open>aiRef.current\<close> the call inside \<^verbatim>\<open>try\<close> throws and the \<^verbatim>\<open>catch\<close> block runs at once.
\<close>

definition handleNewMessage :: "string \<Rightarrow> App \<Rightarrow> App" where
  "handleNewMessage messageInput s =
     (let userMessage = \<lparr>role = User, content = messageInput\<rparr>;
          updated = messages_closure s @ [userMessage];
          s1 = s\<lparr>messages := messages s @ [userMessage], loading := True, inputValue := []\<rparr>;
          streamingOptions =
            \<lparr>temperature = 7 / 10, maxTokens = 1000,
             onStreamResult = length (updatedMessages s1)\<rparr>
      in case aiRef s1 of
           None \<Rightarrow> generateText_catch s1
         | Some ai \<Rightarrow>
             s1\<lparr>generateText_calls := generateText_calls s1 @
                   [\<lparr>input_messages = \<lparr>role = System, content = systemPrompt\<rparr> # updated,
                     options = streamingOptions\<rparr>],
                updatedMessages := updatedMessages s1 @ [updated]\<rparr>)"

text \<open>\<^verbatim>\<open>handleSendMessage\<close> (lines 39-50).\<close>

definition handleSendMessage :: "App \<Rightarrow> App" where
  "handleSendMessage s =
     (if inputValue s = [] then s
      else if aiRef s = None
      then s\<lparr>toasts := toasts s @ [Toast_custom InstallationToast ''window-ai-not-detected'']\<rparr>
      else handleNewMessage (inputValue s) s)"

text \<open>\<^verbatim>\<open>startGame\<close> (lines 118-128).\<close>

definition startGame :: "App \<Rightarrow> App" where
  "startGame s =
     (if aiRef s = None
      then s\<lparr>toasts := toasts s @ [Toast_custom InstallationToast ''window-ai-not-detected'']\<rparr>
      else (handleNewMessage ''Start Game'' s)\<lparr>isGameStarted := True\<rparr>)"

section \<open>Rendering the transcript\<close>

text \<open>
  Lines 141-160: an empty \<^verbatim>\<open>div\<close> for index 0, and for every other index a \<^verbatim>\<open>div\<close> with
  the index as key, the two class names, and the content of the message as its text.
\<close>

datatype element =
    Empty_div
  | Message_div nat string string string

definition render_messages :: "ChatMessage list \<Rightarrow> element list" where
  "render_messages ms =
     map_index (\<lambda>msg index.
       if index = 0 then Empty_div
       else Message_div index
              (''mb-2 '' @ (if role msg = User then ''text-right'' else []))
              (''inline-block p-2 rounded-lg text-left '' @
                 (if role msg = User then ''bg-blue-500 text-white''
                  else ''bg-gray-300 text-black''))
              (content msg)) ms"

section \<open>The life of the component\<close>

text \<open>
  A render gives the handlers the current \<^verbatim>\<open>messages\<close>. A handler of a DOM event that
  has changed a state cell is followed by a render before the next event is handled.
\<close>

definition rerender :: "App \<Rightarrow> App" where
  "rerender s = s\<lparr>messages_closure := messages s\<rparr>"

definition after_handler :: "App \<Rightarrow> App \<Rightarrow> App" where
  "after_handler s s' =
     (if messages s' = messages s \<and> inputValue s' = inputValue s \<and>
         loading s' = loading s \<and> isGameStarted s' = isGameStarted s
      then s' else rerender s')"

text \<open>
  What can happen to a mounted component: the Start Game button is clicked, the form is
  submitted, the input field changes, the extension invokes the callback of call \<open>k\<close>,
  the promise of call \<open>k\<close> is rejected, or a render that the callback's state updates
  have left pending takes place. The extension invokes the callback outside the handlers
  of DOM events, so another event can be handled before that render.
\<close>

datatype event =
    Click_Start_Game
  | Submit_form
  | Change_input string
  | Stream_result nat "MessageOutput option" "string option"
  | GenerateText_rejected nat
  | Render

definition step :: "App \<Rightarrow> event \<Rightarrow> App" where
  "step s e =
     (case e of
        Click_Start_Game \<Rightarrow> after_handler s (startGame s)
      | Submit_form \<Rightarrow> after_handler s (handleSendMessage s)
      | Change_input v \<Rightarrow> after_handler s (s\<lparr>inputValue := v\<rparr>)
      | Stream_result k result error \<Rightarrow> run_onStreamResult k result error s
      | GenerateText_rejected k \<Rightarrow>
          if k < length (generateText_calls s) then generateText_catch s else s
      | Render \<Rightarrow> rerender s)"

text \<open>
  The effect of line 15 has no dependencies: \<^verbatim>\<open>init\<close> is started when the component is
  mounted and its \<^verbatim>\<open>await\<close> resumes once. \<open>early\<close> are the events handled while the
  probe is pending, \<open>later\<close> those handled once it has settled as \<open>probe\<close>.
\<close>

definition run :: "event list \<Rightarrow> probe_outcome \<Rightarrow> event list \<Rightarrow> App" where
  "run early probe later = foldl step (init probe (foldl step App_initial early)) later"

section \<open>Invariants of the state\<close>

text \<open>
  A list of messages is plain when it holds user and assistant messages only. A call is
  well formed when its message list starts with the system prompt and goes on with plain
  messages, its options are those of lines 61-63, and its callback is one of the first
  \<open>n\<close> closures. \<open>App_inv\<close> collects what every handler preserves.
\<close>

definition plain :: "ChatMessage list \<Rightarrow> bool" where
  "plain ms \<longleftrightarrow> (\<forall>m \<in> set ms. role m = User \<or> role m = Assistant)"

definition call_ok :: "nat \<Rightarrow> generateText_call \<Rightarrow> bool" where
  "call_ok n c \<longleftrightarrow>
     input_messages c \<noteq> [] \<and>
     hd (input_messages c) = \<lparr>role = System, content = systemPrompt\<rparr> \<and>
     plain (tl (input_messages c)) \<and>
     temperature (options c) = 7 / 10 \<and> maxTokens (options c) = 1000 \<and>
     onStreamResult (options c) < n"

definition App_inv :: "App \<Rightarrow> bool" where
  "App_inv s \<longleftrightarrow>
     plain (messages s) \<and>
     plain (messages_closure s) \<and>
     (\<forall>ums \<in> set (updatedMessages s). ums \<noteq> [] \<and> plain ums) \<and>
     length (generateText_calls s) = length (updatedMessages s) \<and>
     (\<forall>c \<in> set (generateText_calls s). call_ok (length (updatedMessages s)) c)"

section \<open>Auxiliary facts\<close>

lemma length_map_index: "length (map_index f xs) = length xs"
  by (simp add: map_index_def)

lemma nth_map_index: "i < length xs \<Longrightarrow> map_index f xs ! i = f (xs ! i) i"
  by (simp add: map_index_def)

lemma map_index_last_only:
  assumes "xs \<noteq> []"
  shows "map_index (\<lambda>x i. if i = length xs - 1 then g x else x) xs = butlast xs @ [g (last xs)]"
proof (rule nth_equalityI)
  show "length (map_index (\<lambda>x i. if i = length xs - 1 then g x else x) xs) = length (butlast xs @ [g (last xs)])"
    using assms by (simp add: length_map_index)
next
  fix i assume "i < length (map_index (\<lambda>x i. if i = length xs - 1 then g x else x) xs)"
  then have i: "i < length xs" by (simp add: length_map_index)
  show "map_index (\<lambda>x i. if i = length xs - 1 then g x else x) xs ! i = (butlast xs @ [g (last xs)]) ! i"
  proof (cases "i = length xs - 1")
    case True
    then show ?thesis using i assms
      by (simp add: nth_map_index nth_append last_conv_nth)
  next
    case False
    then have "i < length xs - 1" using i by simp
    then show ?thesis using i False
      by (simp add: nth_map_index nth_append nth_butlast)
  qed
qed

lemma stream_update_user:
  "ums \<noteq> [] \<Longrightarrow> role (last ums) = User \<Longrightarrow>
   stream_update ums r = Some (ums @ [\<lparr>role = Assistant, content = content (message r)\<rparr>])"
  by (simp add: stream_update_def last_conv_nth)

lemma stream_update_other:
  "ums \<noteq> [] \<Longrightarrow> role (last ums) \<noteq> User \<Longrightarrow>
   stream_update ums r =
     Some (butlast ums @ [(last ums)\<lparr>content := content (last ums) @ content (message r)\<rparr>])"
  using map_index_last_only [of ums "\<lambda>m. m\<lparr>content := content m @ content (message r)\<rparr>"]
  by (simp add: stream_update_def last_conv_nth)

lemma plain_snoc: "plain (ms @ [m]) \<longleftrightarrow> plain ms \<and> (role m = User \<or> role m = Assistant)"
  by (auto simp: plain_def)

lemma plain_butlast: "plain ms \<Longrightarrow> plain (butlast ms)"
  by (auto simp: plain_def dest: in_set_butlastD)

lemma plain_last: "plain ms \<Longrightarrow> ms \<noteq> [] \<Longrightarrow> role (last ms) = User \<or> role (last ms) = Assistant"
  by (simp add: plain_def)

lemma stream_update_plain:
  assumes "plain ums" and "stream_update ums r = Some ums'"
  shows "ums' \<noteq> [] \<and> plain ums'"
proof -
  from assms(2) have ne: "ums \<noteq> []" by (auto simp: stream_update_def split: if_splits)
  show ?thesis
  proof (cases "role (last ums) = User")
    case True
    with ne assms show ?thesis by (auto simp: stream_update_user plain_snoc)
  next
    case False
    with ne assms(2) have "ums' = butlast ums @ [(last ums)\<lparr>content := content (last ums) @ content (message r)\<rparr>]"
      by (simp add: stream_update_other)
    moreover have "role (last ums) = Assistant" using False plain_last [OF assms(1) ne] by simp
    ultimately show ?thesis using plain_butlast [OF assms(1)] by (simp add: plain_snoc)
  qed
qed

lemma call_ok_mono: "call_ok n c \<Longrightarrow> n \<le> n' \<Longrightarrow> call_ok n' c"
  by (auto simp: call_ok_def)

lemma App_inv_initial: "App_inv App_initial"
  by (simp add: App_inv_def App_initial_def plain_def)

lemma App_inv_init: "App_inv s \<Longrightarrow> App_inv (init probe s)"
  by (simp add: App_inv_def init_def Let_def split: probe_outcome.splits)

lemma App_inv_rerender: "App_inv s \<Longrightarrow> App_inv (rerender s)"
  by (simp add: App_inv_def rerender_def)

lemma App_inv_after_handler: "App_inv s' \<Longrightarrow> App_inv (after_handler s s')"
  by (simp add: after_handler_def App_inv_rerender)

lemma App_inv_catch: "App_inv s \<Longrightarrow> App_inv (generateText_catch s)"
  by (simp add: App_inv_def generateText_catch_def)

lemma App_inv_handleNewMessage: 
  assumes "App_inv s" shows "App_inv (handleNewMessage messageInput s)"
proof (cases "aiRef s")
  case None
  then show ?thesis using assms
    by (simp add: handleNewMessage_def Let_def generateText_catch_def App_inv_def plain_snoc)
next
  case (Some ai)
  have "call_ok (Suc (length (updatedMessages s)))
          \<lparr>input_messages = \<lparr>role = System, content = systemPrompt\<rparr> #
             messages_closure s @ [\<lparr>role = User, content = messageInput\<rparr>],
           options = \<lparr>temperature = 7 / 10, maxTokens = 1000, onStreamResult = length (updatedMessages s)\<rparr>\<rparr>"
    using assms by (simp add: call_ok_def App_inv_def plain_snoc)
  moreover have "\<forall>c \<in> set (generateText_calls s). call_ok (Suc (length (updatedMessages s))) c"
    using assms call_ok_mono by (auto simp: App_inv_def)
  ultimately show ?thesis using assms Some
    by (simp add: handleNewMessage_def Let_def App_inv_def plain_snoc)
qed

lemma App_inv_onStreamResult_within:
  assumes "App_inv s" and "k < length (updatedMessages s)"
  shows "App_inv (run_onStreamResult k result error s)"
proof (cases "truthy error")
  case True
  then show ?thesis using assms by (simp add: run_onStreamResult_def App_inv_def)
next
  case False
  show ?thesis
  proof (cases result)
    case None
    then show ?thesis using False assms by (simp add: run_onStreamResult_def App_inv_def)
  next
    case (Some r)
    show ?thesis
    proof (cases "stream_update (updatedMessages s ! k) r")
      case None
      then show ?thesis using False Some assms by (simp add: run_onStreamResult_def App_inv_def)
    next
      case (Some ums')
      have "plain (updatedMessages s ! k)" using assms by (simp add: App_inv_def)
      then have ok: "ums' \<noteq> [] \<and> plain ums'" using Some stream_update_plain by blast
      have "\<forall>ums \<in> set ((updatedMessages s)[k := ums']). ums \<noteq> [] \<and> plain ums"
        using assms(1) ok set_update_subset_insert [of "updatedMessages s" k ums']
        by (auto simp: App_inv_def)
      then show ?thesis using False \<open>result = Some r\<close> Some assms ok
        by (simp add: run_onStreamResult_def App_inv_def)
    qed
  qed
qed

lemma App_inv_onStreamResult:
  "App_inv s \<Longrightarrow> App_inv (run_onStreamResult k result error s)"
  using App_inv_onStreamResult_within [of s k result error]
  by (cases "k < length (updatedMessages s)") (simp_all add: run_onStreamResult_def)

lemma App_inv_handleSendMessage: "App_inv s \<Longrightarrow> App_inv (handleSendMessage s)"
  using App_inv_handleNewMessage [of s "inputValue s"]
  by (simp add: handleSendMessage_def App_inv_def)

lemma App_inv_startGame: "App_inv s \<Longrightarrow> App_inv (startGame s)"
  using App_inv_handleNewMessage [of s "''Start Game''"]
  by (simp add: startGame_def App_inv_def)

lemma App_inv_step: "App_inv s \<Longrightarrow> App_inv (step s e)"
proof (cases e)
  case (Change_input v)
  assume "App_inv s"
  then have "App_inv (s\<lparr>inputValue := v\<rparr>)" by (simp add: App_inv_def)
  then show ?thesis using Change_input by (simp add: step_def App_inv_after_handler)
qed (simp_all add: step_def App_inv_startGame App_inv_handleSendMessage
      App_inv_onStreamResult App_inv_catch App_inv_after_handler App_inv_rerender)

lemma App_inv_foldl: "App_inv s \<Longrightarrow> App_inv (foldl step s es)"
  by (induction es arbitrary: s) (simp_all add: App_inv_step)

lemma App_inv_run: "App_inv (run early probe later)"
  by (simp add: run_def App_inv_foldl App_inv_init App_inv_initial)

lemma step_calls_passive:
  "e \<noteq> Click_Start_Game \<Longrightarrow> e \<noteq> Submit_form \<Longrightarrow>
   generateText_calls (step s e) = generateText_calls s"
  by (cases e) (simp_all add: step_def run_onStreamResult_def generateText_catch_def
      after_handler_def rerender_def Let_def split: option.splits)

lemma foldl_step_calls_passive:
  "\<forall>e \<in> set es. e \<noteq> Click_Start_Game \<and> e \<noteq> Submit_form \<Longrightarrow>
   generateText_calls (foldl step s es) = generateText_calls s"
  by (induction es arbitrary: s) (simp_all add: step_calls_passive)

section \<open>Properties of the handlers\<close>

lemmas handler_defs = run_def step_def init_def App_initial_def startGame_def
  handleSendMessage_def handleNewMessage_def run_onStreamResult_def generateText_catch_def
  after_handler_def rerender_def truthy_def Let_def

text \<open>
  C1. Every send issues exactly one \<^verbatim>\<open>generateText\<close> request whose message list is the
  system prompt, then the entire prior transcript, then a new user message with the typed
  input. The request does not always hold the entire transcript: line 55 takes the
  \<^verbatim>\<open>messages\<close> constant of the handler's render, not the state that line 56 reads, so a
  chunk that has arrived and is not rendered yet is missing from the request. The trace
  below runs it. The game is started and the chunk \<^verbatim>\<open>A\<close> arrives; the player types \<^verbatim>\<open>1\<close>,
  which renders \<^verbatim>\<open>A\<close>; the chunk \<^verbatim>\<open>B\<close> arrives, and the player submits before it is
  rendered. At the submission the form is shown and enabled and the transcript reads
  \<^verbatim>\<open>AB\<close>, the second request is made with \<^verbatim>\<open>A\<close>, and the working transcript of that call
  lacks \<^verbatim>\<open>B\<close> as well.
\<close>

theorem request_built_from_stale_render:
  "messages (run [] (Resolved (Some WindowAI))
      [Click_Start_Game,
       Stream_result 0 (Some \<lparr>message = \<lparr>role = Assistant, content = ''A''\<rparr>\<rparr>) None,
       Change_input ''1'',
       Stream_result 0 (Some \<lparr>message = \<lparr>role = Assistant, content = ''B''\<rparr>\<rparr>) None]) =
     [\<lparr>role = User, content = ''Start Game''\<rparr>, \<lparr>role = Assistant, content = ''AB''\<rparr>] \<and>
   \<not> loading (run [] (Resolved (Some WindowAI))
      [Click_Start_Game,
       Stream_result 0 (Some \<lparr>message = \<lparr>role = Assistant, content = ''A''\<rparr>\<rparr>) None,
       Change_input ''1'',
       Stream_result 0 (Some \<lparr>message = \<lparr>role = Assistant, content = ''B''\<rparr>\<rparr>) None]) \<and>
   isGameStarted (run [] (Resolved (Some WindowAI))
      [Click_Start_Game,
       Stream_result 0 (Some \<lparr>message = \<lparr>role = Assistant, content = ''A''\<rparr>\<rparr>) None,
       Change_input ''1'',
       Stream_result 0 (Some \<lparr>message = \<lparr>role = Assistant, content = ''B''\<rparr>\<rparr>) None]) \<and>
   inputValue (run [] (Resolved (Some WindowAI))
      [Click_Start_Game,
       Stream_result 0 (Some \<lparr>message = \<lparr>role = Assistant, content = ''A''\<rparr>\<rparr>) None,
       Change_input ''1'',
       Stream_result 0 (Some \<lparr>message = \<lparr>role = Assistant, content = ''B''\<rparr>\<rparr>) None]) = ''1'' \<and>
   map input_messages (generateText_calls (run [] (Resolved (Some WindowAI))
      [Click_Start_Game,
       Stream_result 0 (Some \<lparr>message = \<lparr>role = Assistant, content = ''A''\<rparr>\<rparr>) None,
       Change_input ''1'',
       Stream_result 0 (Some \<lparr>message = \<lparr>role = Assistant, content = ''B''\<rparr>\<rparr>) None,
       Submit_form])) =
     [[\<lparr>role = System, content = systemPrompt\<rparr>, \<lparr>role = User, content = ''Start Game''\<rparr>],
      [\<lparr>role = System, content = systemPrompt\<rparr>, \<lparr>role = User, content = ''Start Game''\<rparr>,
       \<lparr>role = Assistant, content = ''A''\<rparr>, \<lparr>role = User, content = ''1''\<rparr>]] \<and>
   updatedMessages (run [] (Resolved (Some WindowAI))
      [Click_Start_Game,
       Stream_result 0 (Some \<lparr>message = \<lparr>role = Assistant, content = ''A''\<rparr>\<rparr>) None,
       Change_input ''1'',
       Stream_result 0 (Some \<lparr>message = \<lparr>role = Assistant, content = ''B''\<rparr>\<rparr>) None,
       Submit_form]) ! 1 =
     [\<lparr>role = User, content = ''Start Game''\<rparr>, \<lparr>role = Assistant, content = ''A''\<rparr>,
      \<lparr>role = User, content = ''1''\<rparr>]"
  by (simp add: handler_defs stream_update_def map_index_def)

text \<open>
  C2. In every state the component can reach, when the callback of call \<open>k\<close> is invoked
  with a falsy error and a result: if the last message of that call's working transcript
  is a user message, the working transcript gains a new assistant message whose content
  is the content of the chunk; otherwise the last message is an assistant message, the
  content of the chunk is appended to its content, and all messages before it stay as
  they are. The \<^verbatim>\<open>messages\<close> state is set to the new working transcript, and the working
  transcripts of the other calls are untouched.
\<close>

theorem onStreamResult_appends_or_extends:
  assumes "s = run early probe later"
    and "k < length (updatedMessages s)"
    and "\<not> truthy error"
    and "s' = step s (Stream_result k (Some result) error)"
  shows "updatedMessages s' = (updatedMessages s)[k := messages s'] \<and>
         (role (last (updatedMessages s ! k)) = User \<longrightarrow>
            messages s' =
              updatedMessages s ! k @ [\<lparr>role = Assistant, content = content (message result)\<rparr>]) \<and>
         (role (last (updatedMessages s ! k)) \<noteq> User \<longrightarrow>
            role (last (updatedMessages s ! k)) = Assistant \<and>
            messages s' =
              butlast (updatedMessages s ! k) @
              [(last (updatedMessages s ! k))
                 \<lparr>content := content (last (updatedMessages s ! k)) @ content (message result)\<rparr>])"
proof -
  let ?ums = "updatedMessages s ! k"
  have inv: "App_inv s" using assms(1) App_inv_run by simp
  with assms(2) have ne: "?ums \<noteq> []" and pl: "plain ?ums"
    by (simp_all add: App_inv_def)
  show ?thesis
  proof (cases "role (last ?ums) = User")
    case True
    then show ?thesis using assms(2-4) ne
      by (simp add: step_def run_onStreamResult_def stream_update_user)
  next
    case False
    moreover have "role (last ?ums) = Assistant" using False plain_last [OF pl ne] by simp
    ultimately show ?thesis using assms(2-4) ne
      by (simp add: step_def run_onStreamResult_def stream_update_other)
  qed
qed

theorem onStreamResult_appends_or_extends_witness:
  "0 < length (updatedMessages (run [] (Resolved (Some WindowAI))
        [Click_Start_Game,
         Stream_result 0 (Some \<lparr>message = \<lparr>role = Assistant, content = ''You ''\<rparr>\<rparr>) None])) \<and>
   \<not> truthy None \<and>
   messages (step (run [] (Resolved (Some WindowAI))
        [Click_Start_Game,
         Stream_result 0 (Some \<lparr>message = \<lparr>role = Assistant, content = ''You ''\<rparr>\<rparr>) None])
      (Stream_result 0 (Some \<lparr>message = \<lparr>role = Assistant, content = ''wake.''\<rparr>\<rparr>) None)) =
     [\<lparr>role = User, content = ''Start Game''\<rparr>, \<lparr>role = Assistant, content = ''You wake.''\<rparr>]"
  using onStreamResult_appends_or_extends
    [OF refl _ _ refl, of 0 "[]" "Resolved (Some WindowAI)"
       "[Click_Start_Game,
         Stream_result 0 (Some \<lparr>message = \<lparr>role = Assistant, content = ''You ''\<rparr>\<rparr>) None]"
       None "\<lparr>message = \<lparr>role = Assistant, content = ''wake.''\<rparr>\<rparr>"]
  by (simp add: handler_defs stream_update_def map_index_def)

text \<open>
  C3. The transcript is append-only except for the growth of its final assistant message:
  every transition of \<^verbatim>\<open>messages\<close> appends one message or extends the content of the
  final assistant message, and keeps every earlier message. The callback does not keep
  to this. It writes its own call's working transcript over the state, so a chunk of an
  earlier call that arrives after a newer send removes the newer user message. The trace
  below runs it: the game is started, the first chunk \<^verbatim>\<open>A\<close> arrives and clears the loading
  flag, the player types \<^verbatim>\<open>1\<close> into the form, which is shown and enabled, and submits,
  and the transcript holds three messages; then the second chunk \<^verbatim>\<open>B\<close> of the first call
  arrives and the transcript holds two.
\<close>

theorem later_chunk_drops_newer_message:
  "messages (run [] (Resolved (Some WindowAI))
      [Click_Start_Game,
       Stream_result 0 (Some \<lparr>message = \<lparr>role = Assistant, content = ''A''\<rparr>\<rparr>) None,
       Change_input ''1'',
       Submit_form]) =
     [\<lparr>role = User, content = ''Start Game''\<rparr>, \<lparr>role = Assistant, content = ''A''\<rparr>,
      \<lparr>role = User, content = ''1''\<rparr>] \<and>
   \<not> loading (run [] (Resolved (Some WindowAI))
      [Click_Start_Game,
       Stream_result 0 (Some \<lparr>message = \<lparr>role = Assistant, content = ''A''\<rparr>\<rparr>) None,
       Change_input ''1'']) \<and>
   isGameStarted (run [] (Resolved (Some WindowAI))
      [Click_Start_Game,
       Stream_result 0 (Some \<lparr>message = \<lparr>role = Assistant, content = ''A''\<rparr>\<rparr>) None,
       Change_input ''1'']) \<and>
   messages (run [] (Resolved (Some WindowAI))
      [Click_Start_Game,
       Stream_result 0 (Some \<lparr>message = \<lparr>role = Assistant, content = ''A''\<rparr>\<rparr>) None,
       Change_input ''1'',
       Submit_form,
       Stream_result 0 (Some \<lparr>message = \<lparr>role = Assistant, content = ''B''\<rparr>\<rparr>) None]) =
     [\<lparr>role = User, content = ''Start Game''\<rparr>, \<lparr>role = Assistant, content = ''AB''\<rparr>]"
  by (simp add: handler_defs stream_update_def map_index_def)

text \<open>
  C4. Clicking Start Game while \<^verbatim>\<open>aiRef.current\<close> is null shows the install prompt and
  does nothing else: no \<^verbatim>\<open>generateText\<close> call, the transcript and the game-started flag
  as they were.
\<close>

theorem startGame_without_extension:
  assumes "aiRef s = None"
  shows "toasts (startGame s) =
           toasts s @ [Toast_custom InstallationToast ''window-ai-not-detected''] \<and>
         generateText_calls (startGame s) = generateText_calls s \<and>
         messages (startGame s) = messages s \<and>
         isGameStarted (startGame s) = isGameStarted s \<and>
         startGame s = s\<lparr>toasts := toasts (startGame s)\<rparr>"
  using assms by (simp add: startGame_def)

theorem startGame_without_extension_witness:
  "aiRef (init (Resolved None) App_initial) = None \<and>
   toasts (startGame (init (Resolved None) App_initial)) =
     [Toast_custom InstallationToast ''window-ai-not-detected'',
      Toast_custom InstallationToast ''window-ai-not-detected''] \<and>
   generateText_calls (startGame (init (Resolved None) App_initial)) = [] \<and>
   messages (startGame (init (Resolved None) App_initial)) = [] \<and>
   \<not> isGameStarted (startGame (init (Resolved None) App_initial))"
  using startGame_without_extension [of "init (Resolved None) App_initial"]
  by (simp add: init_def App_initial_def)

text \<open>
  C5. A generation failure ends the interaction. When the callback of a call reports an
  error (a truthy \<^verbatim>\<open>error\<close>), or when the promise of \<^verbatim>\<open>generateText\<close> is rejected, one
  error toast is shown, the transcript and every working transcript stay as they are, and
  no \<^verbatim>\<open>generateText\<close> call is made. No sequence of callbacks and rejections ever makes
  a call: only a click on Start Game or a form submission does.
\<close>

theorem generation_failure_is_terminal:
  "(truthy error \<and> k < length (updatedMessages s) \<longrightarrow>
      toasts (step s (Stream_result k result error)) =
        toasts s @ [Toast_error ''window.ai streaming completion failed.''] \<and>
      messages (step s (Stream_result k result error)) = messages s \<and>
      updatedMessages (step s (Stream_result k result error)) = updatedMessages s \<and>
      generateText_calls (step s (Stream_result k result error)) = generateText_calls s) \<and>
   (k < length (generateText_calls s) \<longrightarrow>
      toasts (step s (GenerateText_rejected k)) =
        toasts s @ [Toast_error ''window.ai generation completion failed.''] \<and>
      messages (step s (GenerateText_rejected k)) = messages s \<and>
      updatedMessages (step s (GenerateText_rejected k)) = updatedMessages s \<and>
      generateText_calls (step s (GenerateText_rejected k)) = generateText_calls s) \<and>
   ((\<forall>e \<in> set es. e \<noteq> Click_Start_Game \<and> e \<noteq> Submit_form) \<longrightarrow>
      generateText_calls (foldl step s es) = generateText_calls s)"
  by (simp add: step_def run_onStreamResult_def generateText_catch_def foldl_step_calls_passive)

theorem generation_failure_is_terminal_witness:
  "truthy (Some ''timeout'') \<and>
   0 < length (updatedMessages (run [] (Resolved (Some WindowAI)) [Click_Start_Game])) \<and>
   toasts (step (run [] (Resolved (Some WindowAI)) [Click_Start_Game])
             (Stream_result 0 None (Some ''timeout''))) =
     [Toast_success ''window.ai detected!'' ''window-ai-detected'',
      Toast_error ''window.ai streaming completion failed.''] \<and>
   messages (step (run [] (Resolved (Some WindowAI)) [Click_Start_Game])
             (Stream_result 0 None (Some ''timeout''))) =
     [\<lparr>role = User, content = ''Start Game''\<rparr>] \<and>
   length (generateText_calls (foldl step (run [] (Resolved (Some WindowAI)) [Click_Start_Game])
             [Stream_result 0 None (Some ''timeout''), GenerateText_rejected 0])) = 1"
  using generation_failure_is_terminal
    [of "Some ''timeout''" 0 "run [] (Resolved (Some WindowAI)) [Click_Start_Game]" None
        "[Stream_result 0 None (Some ''timeout''), GenerateText_rejected 0]"]
  by (simp add: handler_defs)

text \<open>
  C6. The probe runs exactly once at load; a detected extension gives a success toast and
  an absent one the install prompt, and the probe result alone decides whether later
  sends proceed. \<^verbatim>\<open>init\<close> shows the prompt only for a probe that resolves to null. When the
  promise of \<^verbatim>\<open>getWindowAI()\<close> is rejected, nothing is shown at load: \<^verbatim>\<open>aiRef.current\<close>
  stays null, no toast is called, and the prompt first appears when Start Game is clicked.
\<close>

theorem rejected_probe_shows_no_prompt:
  "toasts (run [] Rejected []) = [] \<and>
   aiRef (run [] Rejected []) = None \<and>
   getWindowAI_calls (run [] Rejected []) = 1 \<and>
   toasts (run [] (Resolved None) []) =
     [Toast_custom InstallationToast ''window-ai-not-detected''] \<and>
   toasts (run [] Rejected [Click_Start_Game]) =
     [Toast_custom InstallationToast ''window-ai-not-detected'']"
  by (simp add: handler_defs)

text \<open>
  C7. Every \<^verbatim>\<open>generateText\<close> call the component ever makes carries, beside its message
  list, a streaming-options object with temperature 0.7, maxTokens 1000 and the
  \<^verbatim>\<open>onStreamResult\<close> callback of an invocation that took place.
\<close>

theorem every_call_carries_streaming_options:
  "\<forall>c \<in> set (generateText_calls (run early probe later)).
     temperature (options c) = 7 / 10 \<and> maxTokens (options c) = 1000 \<and>
     onStreamResult (options c) < length (updatedMessages (run early probe later))"
  using App_inv_run [of early probe later] by (simp add: App_inv_def call_ok_def)

theorem every_call_carries_streaming_options_witness:
  "length (generateText_calls (run [] (Resolved (Some WindowAI)) [Click_Start_Game])) = 1 \<and>
   temperature (options (hd (generateText_calls (run [] (Resolved (Some WindowAI)) [Click_Start_Game])))) = 7 / 10 \<and>
   maxTokens (options (hd (generateText_calls (run [] (Resolved (Some WindowAI)) [Click_Start_Game])))) = 1000 \<and>
   onStreamResult (options (hd (generateText_calls (run [] (Resolved (Some WindowAI)) [Click_Start_Game])))) = 0"
  using every_call_carries_streaming_options [of "[]" "Resolved (Some WindowAI)" "[Click_Start_Game]"]
  by (simp add: handler_defs)

text \<open>
  C8. Submitting the form with an empty input changes nothing: the whole state, and with
  it the transcript, the log of \<^verbatim>\<open>generateText\<close> calls, the loading flag and the input
  value, is the same afterwards.
\<close>

theorem empty_submit_is_noop:
  "inputValue s = [] \<Longrightarrow> step s Submit_form = s"
  by (simp add: step_def handleSendMessage_def after_handler_def)

theorem empty_submit_is_noop_witness:
  "inputValue (init (Resolved (Some WindowAI)) App_initial) = [] \<and>
   step (init (Resolved (Some WindowAI)) App_initial) Submit_form = init (Resolved (Some WindowAI)) App_initial"
  using empty_submit_is_noop [of "init (Resolved (Some WindowAI)) App_initial"]
  by (simp add: init_def App_initial_def)

text \<open>
  C9. In every state the component can reach, each message of the transcript has role
  user or assistant; the system message appears in the requests only, where every message
  list is the system prompt followed by user and assistant messages.
\<close>

theorem transcript_has_no_system_message:
  "(\<forall>m \<in> set (messages (run early probe later)). role m = User \<or> role m = Assistant) \<and>
   (\<forall>c \<in> set (generateText_calls (run early probe later)).
      \<exists>rest. input_messages c = \<lparr>role = System, content = systemPrompt\<rparr> # rest \<and>
             (\<forall>m \<in> set rest. role m = User \<or> role m = Assistant))"
proof -
  have inv: "App_inv (run early probe later)" by (rule App_inv_run)
  have "\<exists>rest. input_messages c = \<lparr>role = System, content = systemPrompt\<rparr> # rest \<and>
             (\<forall>m \<in> set rest. role m = User \<or> role m = Assistant)"
    if "c \<in> set (generateText_calls (run early probe later))" for c
  proof -
    from inv that have ok: "call_ok (length (updatedMessages (run early probe later))) c"
      by (simp add: App_inv_def)
    then have "input_messages c = \<lparr>role = System, content = systemPrompt\<rparr> # tl (input_messages c)"
      by (cases "input_messages c") (simp_all add: call_ok_def)
    moreover from ok have "\<forall>m \<in> set (tl (input_messages c)). role m = User \<or> role m = Assistant"
      by (simp add: call_ok_def plain_def)
    ultimately show ?thesis by blast
  qed
  moreover from inv have "\<forall>m \<in> set (messages (run early probe later)). role m = User \<or> role m = Assistant"
    by (simp add: App_inv_def plain_def)
  ultimately show ?thesis by blast
qed

theorem transcript_has_no_system_message_witness:
  "messages (run [] (Resolved (Some WindowAI))
      [Click_Start_Game,
       Stream_result 0 (Some \<lparr>message = \<lparr>role = System, content = ''Hi''\<rparr>\<rparr>) None]) =
     [\<lparr>role = User, content = ''Start Game''\<rparr>, \<lparr>role = Assistant, content = ''Hi''\<rparr>] \<and>
   map input_messages (generateText_calls (run [] (Resolved (Some WindowAI))
      [Click_Start_Game,
       Stream_result 0 (Some \<lparr>message = \<lparr>role = System, content = ''Hi''\<rparr>\<rparr>) None])) =
     [[\<lparr>role = System, content = systemPrompt\<rparr>, \<lparr>role = User, content = ''Start Game''\<rparr>]]"
  using transcript_has_no_system_message [of "[]" "Resolved (Some WindowAI)"
      "[Click_Start_Game,
        Stream_result 0 (Some \<lparr>message = \<lparr>role = System, content = ''Hi''\<rparr>\<rparr>) None]"]
  by (simp add: handler_defs stream_update_def map_index_def)

text \<open>
  C10. The rendering of a transcript has one element for each message. The element at
  index 0 is an empty \<^verbatim>\<open>div\<close>, whatever the first message is; every later message is
  rendered with its content. Started from an empty transcript, the first message is the
  user message \<^verbatim>\<open>Start Game\<close>.
\<close>

theorem render_hides_first_message:
  "length (render_messages ms) = length ms \<and>
   (ms \<noteq> [] \<longrightarrow> render_messages ms ! 0 = Empty_div) \<and>
   (\<forall>i. 0 < i \<and> i < length ms \<longrightarrow>
      render_messages ms ! i =
        Message_div i
          (''mb-2 '' @ (if role (ms ! i) = User then ''text-right'' else []))
          (''inline-block p-2 rounded-lg text-left '' @
             (if role (ms ! i) = User then ''bg-blue-500 text-white''
              else ''bg-gray-300 text-black''))
          (content (ms ! i))) \<and>
   (aiRef s \<noteq> None \<and> messages s = [] \<longrightarrow>
      messages (startGame s) = [\<lparr>role = User, content = ''Start Game''\<rparr>])"
  by (auto simp: render_messages_def length_map_index nth_map_index startGame_def
      handleNewMessage_def Let_def)

theorem render_hides_first_message_witness:
  "render_messages (messages (run [] (Resolved (Some WindowAI))
      [Click_Start_Game,
       Stream_result 0 (Some \<lparr>message = \<lparr>role = Assistant, content = ''Hi''\<rparr>\<rparr>) None])) =
     [Empty_div,
      Message_div 1 ''mb-2 '' ''inline-block p-2 rounded-lg text-left bg-gray-300 text-black'' ''Hi'']"
  using render_hides_first_message
    [of "messages (run [] (Resolved (Some WindowAI))
      [Click_Start_Game,
       Stream_result 0 (Some \<lparr>message = \<lparr>role = Assistant, content = ''Hi''\<rparr>\<rparr>) None])"
      "init (Resolved (Some WindowAI)) App_initial"]
  by (simp add: handler_defs stream_update_def map_index_def render_messages_def)

end
